theory Spec2Isabelle
  imports Complex_Main "HOL-Library.Sublist" "HOL-Library.Signed_Division" "HOL-Library.Word"
begin

section \<open>Decay-action discovery (decayactionsfinder.cc)\<close>

text \<open>
  The C++ type \<open>double\<close> is modelled by \<open>real\<close>: the comparisons of the source are the
  comparisons of the model on every finite value. There is no NaN in the model; the source
  writes the width test as \<open>!(width > 0.0)\<close>, and the model keeps that form.
\<close>

subsection \<open>Collaborators of the finder\<close>

text \<open>
  The headers of the collaborators (particles, particle types, decay branches, decay
  actions, constants, random numbers) are not part of the sources at hand. Their data is
  modelled by the accessors that the finder calls.
\<close>

record DecayBranch =
  channel_id :: nat
  weight :: real

type_synonym DecayBranchList = "DecayBranch list"

text \<open>
  A particle type offers \<open>is_stable()\<close>, \<open>get_partial_widths_hadronic(m)\<close> and
  \<open>get_partial_widths(m)\<close>; the two width queries depend on the mass.
\<close>

record ParticleType =
  is_stable :: bool
  get_partial_widths_hadronic :: "real \<Rightarrow> DecayBranchList"
  get_partial_widths :: "real \<Rightarrow> DecayBranchList"

record FourVector =
  x0 :: real
  x1 :: real
  x2 :: real
  x3 :: real

record ParticleData =
  pid :: int
  ptype :: ParticleType
  position :: FourVector
  effective_mass :: real
  formation_time :: real
  inverse_gamma :: real

type_synonym ParticleList = "ParticleData list"

text \<open>
  Modelled from the spec: \<open>total_weight\<close> (processbranch.h is missing) is the summed
  partial width of a channel list, accumulated from \<open>0\<close> in list order.
\<close>

definition total_weight :: "DecayBranchList \<Rightarrow> real" where
  "total_weight l = fold (\<lambda>b s. s + weight b) l 0"

text \<open>
  Modelled from the spec: \<open>DecayAction\<close> (decayaction.h is missing) holds the source
  particle, the decay time given to its constructor and a channel list whose total width is
  the sum of the branch widths.
\<close>

record DecayAction =
  incoming_particle :: ParticleData
  decay_time_of :: real
  decay_channels :: DecayBranchList
  total_width :: real

text \<open>
  Modelled from the spec: the constructor \<open>DecayAction(p, time)\<close> (decayaction.h is
  missing) records the particle and the decay time, with no channel yet.
\<close>

definition make_DecayAction :: "ParticleData \<Rightarrow> real \<Rightarrow> DecayAction" where
  "make_DecayAction p t =
     \<lparr>incoming_particle = p, decay_time_of = t, decay_channels = [], total_width = 0\<rparr>"

text \<open>
  Modelled from the spec: \<open>DecayAction::add_decays\<close> (decayaction.h is missing) appends
  the given channels to the channel list of the action and adds their widths to its total.
\<close>

definition add_decays :: "DecayBranchList \<Rightarrow> DecayAction \<Rightarrow> DecayAction" where
  "add_decays pv act =
     act\<lparr>decay_channels := decay_channels act @ pv,
         total_width := total_width act + total_weight pv\<rparr>"

type_synonym ActionList = "DecayAction list"

subsection \<open>Per-step discovery\<close>

text \<open>
  \<open>Random::exponential\<close> (random.h) and the constant \<open>hbarc\<close> (constants.h) are missing
  from the sources; both are parameters. The sampler draws from a process-wide random
  source: it takes the rate and the state \<open>'g\<close> of the source and returns the sample with
  the new state. The loop of \<open>find_actions_in_cell\<close> threads that state and appends to
  \<open>actions\<close> as \<open>emplace_back\<close> does.
\<close>

fun find_actions_loop ::
  "real \<Rightarrow> (real \<Rightarrow> 'g \<Rightarrow> real \<times> 'g) \<Rightarrow> real \<Rightarrow> ParticleList \<Rightarrow> ActionList \<Rightarrow> 'g
     \<Rightarrow> ActionList \<times> 'g" where
  "find_actions_loop hbarc exponential dt [] actions rng = (actions, rng)"
| "find_actions_loop hbarc exponential dt (p # rest) actions rng =
     (if is_stable (ptype p) then find_actions_loop hbarc exponential dt rest actions rng
      else
        let processes = get_partial_widths_hadronic (ptype p) (effective_mass p);
            width = total_weight processes
        in if \<not> (width > 0) then find_actions_loop hbarc exponential dt rest actions rng
           else
             let one_over_hbarc = 1 / hbarc;
                 (decay_time, rng') = exponential (one_over_hbarc * inverse_gamma p * width) rng
             in if decay_time < dt \<and> formation_time p < x0 (position p) + decay_time
                then find_actions_loop hbarc exponential dt rest
                       (actions @ [add_decays processes (make_DecayAction p decay_time)]) rng'
                else find_actions_loop hbarc exponential dt rest actions rng')"

definition find_actions_in_cell ::
  "real \<Rightarrow> (real \<Rightarrow> 'g \<Rightarrow> real \<times> 'g) \<Rightarrow> ParticleList \<Rightarrow> real \<Rightarrow> 'g \<Rightarrow> ActionList \<times> 'g" where
  "find_actions_in_cell hbarc exponential search_list dt rng =
     find_actions_loop hbarc exponential dt search_list [] rng"

subsection \<open>Forced final sweep\<close>

fun find_final_loop :: "ParticleList \<Rightarrow> ActionList \<Rightarrow> ActionList" where
  "find_final_loop [] actions = actions"
| "find_final_loop (p # rest) actions =
     (if is_stable (ptype p) then find_final_loop rest actions
      else find_final_loop rest
             (actions @ [add_decays (get_partial_widths (ptype p) (effective_mass p))
                           (make_DecayAction p 0)]))"

text \<open>
  The second parameter is unnamed in the source (\<open>bool /*only_res*/\<close>). The container
  \<open>Particles\<close> is read in its iteration order, as a list.
\<close>

definition find_final_actions :: "ParticleList \<Rightarrow> bool \<Rightarrow> ActionList" where
  "find_final_actions search_list only_res = find_final_loop search_list []"

section \<open>Clebsch-Gordan lookup (clebschgordan_lookup.h)\<close>

text \<open>
  The key of the lookup table: six \<open>int\<close> members, compared member by member. The
  members hold doubled isospin values. They are modelled by \<open>int\<close>; the model agrees with
  the code wherever the \<open>int\<close> arithmetic of the hash does not overflow.
\<close>

record ThreeSpins =
  j1 :: int
  j2 :: int
  j3 :: int
  m1 :: int
  m2 :: int
  m3 :: int

text \<open>
  \<open>ThreeSpinHash::operator()\<close>. The divisions are those of C++ on \<open>int\<close> (truncation
  towards zero, \<open>sdiv\<close>); the \<open>int\<close> result is converted to \<open>std::size_t\<close>, a 64-bit
  unsigned value.
\<close>

definition ThreeSpinHash :: "ThreeSpins \<Rightarrow> 64 word" where
  "ThreeSpinHash inp =
     (let S = - j1 inp + j2 inp + j3 inp;
          L = j1 inp - j2 inp + j3 inp;
          X = j1 inp - m1 inp;
          B = j2 inp - m2 inp;
          T = j3 inp + m3 inp
      in word_of_int
           (L * (24 + L * (50 + L * (35 + L * (10 + L)))) sdiv 120 +
            X * (6 + X * (11 + X * (6 + X))) sdiv 24 + T * (2 + T * (3 + T)) sdiv 6 +
            B * (B + 1) sdiv 2 + S + 1))"

text \<open>
  The valid domain of the hash, following the words of the specification: in doubled
  quantum numbers every \<open>j\<close> is non-negative, every \<open>m\<close> lies in the range of its \<open>j\<close>
  with the same parity, the three \<open>j\<close> satisfy the triangle inequalities with an even sum,
  and the projections add up.
\<close>

definition valid_coupling :: "ThreeSpins \<Rightarrow> bool" where
  "valid_coupling k \<longleftrightarrow>
     0 \<le> j1 k \<and> 0 \<le> j2 k \<and> 0 \<le> j3 k \<and>
     \<bar>m1 k\<bar> \<le> j1 k \<and> \<bar>m2 k\<bar> \<le> j2 k \<and> \<bar>m3 k\<bar> \<le> j3 k \<and>
     even (j1 k - m1 k) \<and> even (j2 k - m2 k) \<and> even (j3 k - m3 k) \<and>
     \<bar>j1 k - j2 k\<bar> \<le> j3 k \<and> j3 k \<le> j1 k + j2 k \<and> even (j1 k + j2 k + j3 k) \<and>
     m1 k + m2 k = m3 k"

text \<open>The tabulated coefficients, in the order of the initialiser list.\<close>

definition lookup_table_entries :: "(ThreeSpins \<times> real) list" where
  "lookup_table_entries =
     [
      (\<lparr>j1 = 0, j2 = 0, j3 = 0, m1 = 0, m2 = 0, m3 = 0\<rparr>, 1.00000000000000000),
      (\<lparr>j1 = 0, j2 = 1, j3 = 1, m1 = 0, m2 = - 1, m3 = - 1\<rparr>, 1.00000000000000022),
      (\<lparr>j1 = 0, j2 = 1, j3 = 1, m1 = 0, m2 = 1, m3 = 1\<rparr>, 1.00000000000000022),
      (\<lparr>j1 = 0, j2 = 2, j3 = 2, m1 = 0, m2 = - 2, m3 = - 2\<rparr>, 0.99999999999999989),
      (\<lparr>j1 = 0, j2 = 2, j3 = 2, m1 = 0, m2 = 0, m3 = 0\<rparr>, 0.99999999999999989),
      (\<lparr>j1 = 0, j2 = 2, j3 = 2, m1 = 0, m2 = 2, m3 = 2\<rparr>, 0.99999999999999989),
      (\<lparr>j1 = 0, j2 = 3, j3 = 3, m1 = 0, m2 = - 3, m3 = - 3\<rparr>, 1.00000000000000000),
      (\<lparr>j1 = 0, j2 = 3, j3 = 3, m1 = 0, m2 = - 1, m3 = - 1\<rparr>, 0.99999999999999989),
      (\<lparr>j1 = 0, j2 = 3, j3 = 3, m1 = 0, m2 = 1, m3 = 1\<rparr>, 0.99999999999999989),
      (\<lparr>j1 = 0, j2 = 3, j3 = 3, m1 = 0, m2 = 3, m3 = 3\<rparr>, 1.00000000000000000),
      (\<lparr>j1 = 1, j2 = 0, j3 = 1, m1 = - 1, m2 = 0, m3 = - 1\<rparr>, 1.00000000000000022),
      (\<lparr>j1 = 1, j2 = 0, j3 = 1, m1 = 1, m2 = 0, m3 = 1\<rparr>, 1.00000000000000022),
      (\<lparr>j1 = 1, j2 = 1, j3 = 0, m1 = - 1, m2 = 1, m3 = 0\<rparr>, - 0.70710678118654757),
      (\<lparr>j1 = 1, j2 = 1, j3 = 0, m1 = 1, m2 = - 1, m3 = 0\<rparr>, 0.70710678118654757),
      (\<lparr>j1 = 1, j2 = 1, j3 = 2, m1 = - 1, m2 = - 1, m3 = - 2\<rparr>, 0.99999999999999989),
      (\<lparr>j1 = 1, j2 = 1, j3 = 2, m1 = - 1, m2 = 1, m3 = 0\<rparr>, 0.70710678118654746),
      (\<lparr>j1 = 1, j2 = 1, j3 = 2, m1 = 1, m2 = - 1, m3 = 0\<rparr>, 0.70710678118654746),
      (\<lparr>j1 = 1, j2 = 1, j3 = 2, m1 = 1, m2 = 1, m3 = 2\<rparr>, 0.99999999999999989),
      (\<lparr>j1 = 1, j2 = 2, j3 = 1, m1 = - 1, m2 = 0, m3 = - 1\<rparr>, - 0.57735026918962584),
      (\<lparr>j1 = 1, j2 = 2, j3 = 1, m1 = - 1, m2 = 2, m3 = 1\<rparr>, - 0.81649658092772615),
      (\<lparr>j1 = 1, j2 = 2, j3 = 1, m1 = 1, m2 = - 2, m3 = - 1\<rparr>, 0.81649658092772615),
      (\<lparr>j1 = 1, j2 = 2, j3 = 1, m1 = 1, m2 = 0, m3 = 1\<rparr>, 0.57735026918962584),
      (\<lparr>j1 = 1, j2 = 2, j3 = 3, m1 = - 1, m2 = - 2, m3 = - 3\<rparr>, 1.00000000000000000),
      (\<lparr>j1 = 1, j2 = 2, j3 = 3, m1 = - 1, m2 = 0, m3 = - 1\<rparr>, 0.81649658092772615),
      (\<lparr>j1 = 1, j2 = 2, j3 = 3, m1 = - 1, m2 = 2, m3 = 1\<rparr>, 0.57735026918962584),
      (\<lparr>j1 = 1, j2 = 2, j3 = 3, m1 = 1, m2 = - 2, m3 = - 1\<rparr>, 0.57735026918962584),
      (\<lparr>j1 = 1, j2 = 2, j3 = 3, m1 = 1, m2 = 0, m3 = 1\<rparr>, 0.81649658092772615),
      (\<lparr>j1 = 1, j2 = 2, j3 = 3, m1 = 1, m2 = 2, m3 = 3\<rparr>, 1.00000000000000000),
      (\<lparr>j1 = 1, j2 = 3, j3 = 2, m1 = - 1, m2 = - 1, m3 = - 2\<rparr>, - 0.49999999999999983),
      (\<lparr>j1 = 1, j2 = 3, j3 = 2, m1 = - 1, m2 = 1, m3 = 0\<rparr>, - 0.70710678118654724),
      (\<lparr>j1 = 1, j2 = 3, j3 = 2, m1 = - 1, m2 = 3, m3 = 2\<rparr>, - 0.86602540378443837),
      (\<lparr>j1 = 1, j2 = 3, j3 = 2, m1 = 1, m2 = - 3, m3 = - 2\<rparr>, 0.86602540378443837),
      (\<lparr>j1 = 1, j2 = 3, j3 = 2, m1 = 1, m2 = - 1, m3 = 0\<rparr>, 0.70710678118654724),
      (\<lparr>j1 = 1, j2 = 3, j3 = 2, m1 = 1, m2 = 1, m3 = 2\<rparr>, 0.49999999999999983),
      (\<lparr>j1 = 1, j2 = 3, j3 = 4, m1 = - 1, m2 = - 3, m3 = - 4\<rparr>, 1.00000000000000022),
      (\<lparr>j1 = 1, j2 = 3, j3 = 4, m1 = - 1, m2 = - 1, m3 = - 2\<rparr>, 0.86602540378443871),
      (\<lparr>j1 = 1, j2 = 3, j3 = 4, m1 = - 1, m2 = 1, m3 = 0\<rparr>, 0.70710678118654746),
      (\<lparr>j1 = 1, j2 = 3, j3 = 4, m1 = - 1, m2 = 3, m3 = 2\<rparr>, 0.49999999999999994),
      (\<lparr>j1 = 1, j2 = 3, j3 = 4, m1 = 1, m2 = - 3, m3 = - 2\<rparr>, 0.49999999999999994),
      (\<lparr>j1 = 1, j2 = 3, j3 = 4, m1 = 1, m2 = - 1, m3 = 0\<rparr>, 0.70710678118654746),
      (\<lparr>j1 = 1, j2 = 3, j3 = 4, m1 = 1, m2 = 1, m3 = 2\<rparr>, 0.86602540378443871),
      (\<lparr>j1 = 1, j2 = 3, j3 = 4, m1 = 1, m2 = 3, m3 = 4\<rparr>, 1.00000000000000022),
      (\<lparr>j1 = 2, j2 = 0, j3 = 2, m1 = - 2, m2 = 0, m3 = - 2\<rparr>, 0.99999999999999989),
      (\<lparr>j1 = 2, j2 = 0, j3 = 2, m1 = 0, m2 = 0, m3 = 0\<rparr>, 0.99999999999999989),
      (\<lparr>j1 = 2, j2 = 0, j3 = 2, m1 = 2, m2 = 0, m3 = 2\<rparr>, 0.99999999999999989),
      (\<lparr>j1 = 2, j2 = 1, j3 = 1, m1 = - 2, m2 = 1, m3 = - 1\<rparr>, - 0.81649658092772615),
      (\<lparr>j1 = 2, j2 = 1, j3 = 1, m1 = 0, m2 = - 1, m3 = - 1\<rparr>, 0.57735026918962584),
      (\<lparr>j1 = 2, j2 = 1, j3 = 1, m1 = 0, m2 = 1, m3 = 1\<rparr>, - 0.57735026918962584),
      (\<lparr>j1 = 2, j2 = 1, j3 = 1, m1 = 2, m2 = - 1, m3 = 1\<rparr>, 0.81649658092772615),
      (\<lparr>j1 = 2, j2 = 1, j3 = 3, m1 = - 2, m2 = - 1, m3 = - 3\<rparr>, 1.00000000000000000),
      (\<lparr>j1 = 2, j2 = 1, j3 = 3, m1 = - 2, m2 = 1, m3 = - 1\<rparr>, 0.57735026918962584),
      (\<lparr>j1 = 2, j2 = 1, j3 = 3, m1 = 0, m2 = - 1, m3 = - 1\<rparr>, 0.81649658092772615),
      (\<lparr>j1 = 2, j2 = 1, j3 = 3, m1 = 0, m2 = 1, m3 = 1\<rparr>, 0.81649658092772615),
      (\<lparr>j1 = 2, j2 = 1, j3 = 3, m1 = 2, m2 = - 1, m3 = 1\<rparr>, 0.57735026918962584),
      (\<lparr>j1 = 2, j2 = 1, j3 = 3, m1 = 2, m2 = 1, m3 = 3\<rparr>, 1.00000000000000000),
      (\<lparr>j1 = 2, j2 = 2, j3 = 0, m1 = - 2, m2 = 2, m3 = 0\<rparr>, 0.57735026918962584),
      (\<lparr>j1 = 2, j2 = 2, j3 = 0, m1 = 0, m2 = 0, m3 = 0\<rparr>, - 0.57735026918962573),
      (\<lparr>j1 = 2, j2 = 2, j3 = 0, m1 = 2, m2 = - 2, m3 = 0\<rparr>, 0.57735026918962584),
      (\<lparr>j1 = 2, j2 = 2, j3 = 2, m1 = - 2, m2 = 0, m3 = - 2\<rparr>, - 0.70710678118654735),
      (\<lparr>j1 = 2, j2 = 2, j3 = 2, m1 = - 2, m2 = 2, m3 = 0\<rparr>, - 0.70710678118654735),
      (\<lparr>j1 = 2, j2 = 2, j3 = 2, m1 = 0, m2 = - 2, m3 = - 2\<rparr>, 0.70710678118654735),
      (\<lparr>j1 = 2, j2 = 2, j3 = 2, m1 = 0, m2 = 2, m3 = 2\<rparr>, - 0.70710678118654735),
      (\<lparr>j1 = 2, j2 = 2, j3 = 2, m1 = 2, m2 = - 2, m3 = 0\<rparr>, 0.70710678118654735),
      (\<lparr>j1 = 2, j2 = 2, j3 = 2, m1 = 2, m2 = 0, m3 = 2\<rparr>, 0.70710678118654735),
      (\<lparr>j1 = 2, j2 = 2, j3 = 4, m1 = - 2, m2 = - 2, m3 = - 4\<rparr>, 1.00000000000000022),
      (\<lparr>j1 = 2, j2 = 2, j3 = 4, m1 = - 2, m2 = 0, m3 = - 2\<rparr>, 0.70710678118654746),
      (\<lparr>j1 = 2, j2 = 2, j3 = 4, m1 = - 2, m2 = 2, m3 = 0\<rparr>, 0.40824829046386313),
      (\<lparr>j1 = 2, j2 = 2, j3 = 4, m1 = 0, m2 = - 2, m3 = - 2\<rparr>, 0.70710678118654746),
      (\<lparr>j1 = 2, j2 = 2, j3 = 4, m1 = 0, m2 = 0, m3 = 0\<rparr>, 0.81649658092772615),
      (\<lparr>j1 = 2, j2 = 2, j3 = 4, m1 = 0, m2 = 2, m3 = 2\<rparr>, 0.70710678118654746),
      (\<lparr>j1 = 2, j2 = 2, j3 = 4, m1 = 2, m2 = - 2, m3 = 0\<rparr>, 0.40824829046386313),
      (\<lparr>j1 = 2, j2 = 2, j3 = 4, m1 = 2, m2 = 0, m3 = 2\<rparr>, 0.70710678118654746),
      (\<lparr>j1 = 2, j2 = 2, j3 = 4, m1 = 2, m2 = 2, m3 = 4\<rparr>, 1.00000000000000022),
      (\<lparr>j1 = 2, j2 = 3, j3 = 1, m1 = - 2, m2 = 1, m3 = - 1\<rparr>, 0.40824829046386302),
      (\<lparr>j1 = 2, j2 = 3, j3 = 1, m1 = - 2, m2 = 3, m3 = 1\<rparr>, 0.70710678118654746),
      (\<lparr>j1 = 2, j2 = 3, j3 = 1, m1 = 0, m2 = - 1, m3 = - 1\<rparr>, - 0.57735026918962573),
      (\<lparr>j1 = 2, j2 = 3, j3 = 1, m1 = 0, m2 = 1, m3 = 1\<rparr>, - 0.57735026918962573),
      (\<lparr>j1 = 2, j2 = 3, j3 = 1, m1 = 2, m2 = - 3, m3 = - 1\<rparr>, 0.70710678118654746),
      (\<lparr>j1 = 2, j2 = 3, j3 = 1, m1 = 2, m2 = - 1, m3 = 1\<rparr>, 0.40824829046386302),
      (\<lparr>j1 = 2, j2 = 3, j3 = 3, m1 = - 2, m2 = - 1, m3 = - 3\<rparr>, - 0.63245553203367610),
      (\<lparr>j1 = 2, j2 = 3, j3 = 3, m1 = - 2, m2 = 1, m3 = - 1\<rparr>, - 0.73029674334022165),
      (\<lparr>j1 = 2, j2 = 3, j3 = 3, m1 = - 2, m2 = 3, m3 = 1\<rparr>, - 0.63245553203367610),
      (\<lparr>j1 = 2, j2 = 3, j3 = 3, m1 = 0, m2 = - 3, m3 = - 3\<rparr>, 0.77459666924148352),
      (\<lparr>j1 = 2, j2 = 3, j3 = 3, m1 = 0, m2 = - 1, m3 = - 1\<rparr>, 0.25819888974716126),
      (\<lparr>j1 = 2, j2 = 3, j3 = 3, m1 = 0, m2 = 1, m3 = 1\<rparr>, - 0.25819888974716126),
      (\<lparr>j1 = 2, j2 = 3, j3 = 3, m1 = 0, m2 = 3, m3 = 3\<rparr>, - 0.77459666924148352),
      (\<lparr>j1 = 2, j2 = 3, j3 = 3, m1 = 2, m2 = - 3, m3 = - 1\<rparr>, 0.63245553203367610),
      (\<lparr>j1 = 2, j2 = 3, j3 = 3, m1 = 2, m2 = - 1, m3 = 1\<rparr>, 0.73029674334022165),
      (\<lparr>j1 = 2, j2 = 3, j3 = 3, m1 = 2, m2 = 1, m3 = 3\<rparr>, 0.63245553203367610),
      (\<lparr>j1 = 2, j2 = 3, j3 = 5, m1 = - 2, m2 = - 3, m3 = - 5\<rparr>, 0.99999999999999989),
      (\<lparr>j1 = 2, j2 = 3, j3 = 5, m1 = - 2, m2 = - 1, m3 = - 3\<rparr>, 0.77459666924148318),
      (\<lparr>j1 = 2, j2 = 3, j3 = 5, m1 = - 2, m2 = 1, m3 = - 1\<rparr>, 0.54772255750516596),
      (\<lparr>j1 = 2, j2 = 3, j3 = 5, m1 = - 2, m2 = 3, m3 = 1\<rparr>, 0.31622776601683794),
      (\<lparr>j1 = 2, j2 = 3, j3 = 5, m1 = 0, m2 = - 3, m3 = - 3\<rparr>, 0.63245553203367599),
      (\<lparr>j1 = 2, j2 = 3, j3 = 5, m1 = 0, m2 = - 1, m3 = - 1\<rparr>, 0.77459666924148318),
      (\<lparr>j1 = 2, j2 = 3, j3 = 5, m1 = 0, m2 = 1, m3 = 1\<rparr>, 0.77459666924148318),
      (\<lparr>j1 = 2, j2 = 3, j3 = 5, m1 = 0, m2 = 3, m3 = 3\<rparr>, 0.63245553203367599),
      (\<lparr>j1 = 2, j2 = 3, j3 = 5, m1 = 2, m2 = - 3, m3 = - 1\<rparr>, 0.31622776601683794),
      (\<lparr>j1 = 2, j2 = 3, j3 = 5, m1 = 2, m2 = - 1, m3 = 1\<rparr>, 0.54772255750516596),
      (\<lparr>j1 = 2, j2 = 3, j3 = 5, m1 = 2, m2 = 1, m3 = 3\<rparr>, 0.77459666924148318),
      (\<lparr>j1 = 2, j2 = 3, j3 = 5, m1 = 2, m2 = 3, m3 = 5\<rparr>, 0.99999999999999989),
      (\<lparr>j1 = 3, j2 = 0, j3 = 3, m1 = - 3, m2 = 0, m3 = - 3\<rparr>, 1.00000000000000000),
      (\<lparr>j1 = 3, j2 = 0, j3 = 3, m1 = - 1, m2 = 0, m3 = - 1\<rparr>, 0.99999999999999989),
      (\<lparr>j1 = 3, j2 = 0, j3 = 3, m1 = 1, m2 = 0, m3 = 1\<rparr>, 0.99999999999999989),
      (\<lparr>j1 = 3, j2 = 0, j3 = 3, m1 = 3, m2 = 0, m3 = 3\<rparr>, 1.00000000000000000),
      (\<lparr>j1 = 3, j2 = 1, j3 = 2, m1 = - 3, m2 = 1, m3 = - 2\<rparr>, - 0.86602540378443837),
      (\<lparr>j1 = 3, j2 = 1, j3 = 2, m1 = - 1, m2 = - 1, m3 = - 2\<rparr>, 0.49999999999999983),
      (\<lparr>j1 = 3, j2 = 1, j3 = 2, m1 = - 1, m2 = 1, m3 = 0\<rparr>, - 0.70710678118654724),
      (\<lparr>j1 = 3, j2 = 1, j3 = 2, m1 = 1, m2 = - 1, m3 = 0\<rparr>, 0.70710678118654724),
      (\<lparr>j1 = 3, j2 = 1, j3 = 2, m1 = 1, m2 = 1, m3 = 2\<rparr>, - 0.49999999999999983),
      (\<lparr>j1 = 3, j2 = 1, j3 = 2, m1 = 3, m2 = - 1, m3 = 2\<rparr>, 0.86602540378443837),
      (\<lparr>j1 = 3, j2 = 1, j3 = 4, m1 = - 3, m2 = - 1, m3 = - 4\<rparr>, 1.00000000000000022),
      (\<lparr>j1 = 3, j2 = 1, j3 = 4, m1 = - 3, m2 = 1, m3 = - 2\<rparr>, 0.49999999999999994),
      (\<lparr>j1 = 3, j2 = 1, j3 = 4, m1 = - 1, m2 = - 1, m3 = - 2\<rparr>, 0.86602540378443871),
      (\<lparr>j1 = 3, j2 = 1, j3 = 4, m1 = - 1, m2 = 1, m3 = 0\<rparr>, 0.70710678118654746),
      (\<lparr>j1 = 3, j2 = 1, j3 = 4, m1 = 1, m2 = - 1, m3 = 0\<rparr>, 0.70710678118654746),
      (\<lparr>j1 = 3, j2 = 1, j3 = 4, m1 = 1, m2 = 1, m3 = 2\<rparr>, 0.86602540378443871),
      (\<lparr>j1 = 3, j2 = 1, j3 = 4, m1 = 3, m2 = - 1, m3 = 2\<rparr>, 0.49999999999999994),
      (\<lparr>j1 = 3, j2 = 1, j3 = 4, m1 = 3, m2 = 1, m3 = 4\<rparr>, 1.00000000000000022),
      (\<lparr>j1 = 3, j2 = 2, j3 = 1, m1 = - 3, m2 = 2, m3 = - 1\<rparr>, 0.70710678118654746),
      (\<lparr>j1 = 3, j2 = 2, j3 = 1, m1 = - 1, m2 = 0, m3 = - 1\<rparr>, - 0.57735026918962573),
      (\<lparr>j1 = 3, j2 = 2, j3 = 1, m1 = - 1, m2 = 2, m3 = 1\<rparr>, 0.40824829046386302),
      (\<lparr>j1 = 3, j2 = 2, j3 = 1, m1 = 1, m2 = - 2, m3 = - 1\<rparr>, 0.40824829046386302),
      (\<lparr>j1 = 3, j2 = 2, j3 = 1, m1 = 1, m2 = 0, m3 = 1\<rparr>, - 0.57735026918962573),
      (\<lparr>j1 = 3, j2 = 2, j3 = 1, m1 = 3, m2 = - 2, m3 = 1\<rparr>, 0.70710678118654746),
      (\<lparr>j1 = 3, j2 = 2, j3 = 3, m1 = - 3, m2 = 0, m3 = - 3\<rparr>, - 0.77459666924148352),
      (\<lparr>j1 = 3, j2 = 2, j3 = 3, m1 = - 3, m2 = 2, m3 = - 1\<rparr>, - 0.63245553203367610),
      (\<lparr>j1 = 3, j2 = 2, j3 = 3, m1 = - 1, m2 = - 2, m3 = - 3\<rparr>, 0.63245553203367610),
      (\<lparr>j1 = 3, j2 = 2, j3 = 3, m1 = - 1, m2 = 0, m3 = - 1\<rparr>, - 0.25819888974716126),
      (\<lparr>j1 = 3, j2 = 2, j3 = 3, m1 = - 1, m2 = 2, m3 = 1\<rparr>, - 0.73029674334022165),
      (\<lparr>j1 = 3, j2 = 2, j3 = 3, m1 = 1, m2 = - 2, m3 = - 1\<rparr>, 0.73029674334022165),
      (\<lparr>j1 = 3, j2 = 2, j3 = 3, m1 = 1, m2 = 0, m3 = 1\<rparr>, 0.25819888974716126),
      (\<lparr>j1 = 3, j2 = 2, j3 = 3, m1 = 1, m2 = 2, m3 = 3\<rparr>, - 0.63245553203367610),
      (\<lparr>j1 = 3, j2 = 2, j3 = 3, m1 = 3, m2 = - 2, m3 = 1\<rparr>, 0.63245553203367610),
      (\<lparr>j1 = 3, j2 = 2, j3 = 3, m1 = 3, m2 = 0, m3 = 3\<rparr>, 0.77459666924148352),
      (\<lparr>j1 = 3, j2 = 2, j3 = 5, m1 = - 3, m2 = - 2, m3 = - 5\<rparr>, 0.99999999999999989),
      (\<lparr>j1 = 3, j2 = 2, j3 = 5, m1 = - 3, m2 = 0, m3 = - 3\<rparr>, 0.63245553203367599),
      (\<lparr>j1 = 3, j2 = 2, j3 = 5, m1 = - 3, m2 = 2, m3 = - 1\<rparr>, 0.31622776601683794),
      (\<lparr>j1 = 3, j2 = 2, j3 = 5, m1 = - 1, m2 = - 2, m3 = - 3\<rparr>, 0.77459666924148318),
      (\<lparr>j1 = 3, j2 = 2, j3 = 5, m1 = - 1, m2 = 0, m3 = - 1\<rparr>, 0.77459666924148318),
      (\<lparr>j1 = 3, j2 = 2, j3 = 5, m1 = - 1, m2 = 2, m3 = 1\<rparr>, 0.54772255750516596),
      (\<lparr>j1 = 3, j2 = 2, j3 = 5, m1 = 1, m2 = - 2, m3 = - 1\<rparr>, 0.54772255750516596),
      (\<lparr>j1 = 3, j2 = 2, j3 = 5, m1 = 1, m2 = 0, m3 = 1\<rparr>, 0.77459666924148318),
      (\<lparr>j1 = 3, j2 = 2, j3 = 5, m1 = 1, m2 = 2, m3 = 3\<rparr>, 0.77459666924148318),
      (\<lparr>j1 = 3, j2 = 2, j3 = 5, m1 = 3, m2 = - 2, m3 = 1\<rparr>, 0.31622776601683794),
      (\<lparr>j1 = 3, j2 = 2, j3 = 5, m1 = 3, m2 = 0, m3 = 3\<rparr>, 0.63245553203367599),
      (\<lparr>j1 = 3, j2 = 2, j3 = 5, m1 = 3, m2 = 2, m3 = 5\<rparr>, 0.99999999999999989),
      (\<lparr>j1 = 3, j2 = 3, j3 = 0, m1 = - 3, m2 = 3, m3 = 0\<rparr>, - 0.49999999999999994),
      (\<lparr>j1 = 3, j2 = 3, j3 = 0, m1 = - 1, m2 = 1, m3 = 0\<rparr>, 0.49999999999999994),
      (\<lparr>j1 = 3, j2 = 3, j3 = 0, m1 = 1, m2 = - 1, m3 = 0\<rparr>, - 0.49999999999999994),
      (\<lparr>j1 = 3, j2 = 3, j3 = 0, m1 = 3, m2 = - 3, m3 = 0\<rparr>, 0.49999999999999994),
      (\<lparr>j1 = 3, j2 = 3, j3 = 2, m1 = - 3, m2 = 1, m3 = - 2\<rparr>, 0.54772255750516596),
      (\<lparr>j1 = 3, j2 = 3, j3 = 2, m1 = - 3, m2 = 3, m3 = 0\<rparr>, 0.67082039324993692),
      (\<lparr>j1 = 3, j2 = 3, j3 = 2, m1 = - 1, m2 = - 1, m3 = - 2\<rparr>, - 0.63245553203367599),
      (\<lparr>j1 = 3, j2 = 3, j3 = 2, m1 = - 1, m2 = 1, m3 = 0\<rparr>, - 0.22360679774997907),
      (\<lparr>j1 = 3, j2 = 3, j3 = 2, m1 = - 1, m2 = 3, m3 = 2\<rparr>, 0.54772255750516596),
      (\<lparr>j1 = 3, j2 = 3, j3 = 2, m1 = 1, m2 = - 3, m3 = - 2\<rparr>, 0.54772255750516596),
      (\<lparr>j1 = 3, j2 = 3, j3 = 2, m1 = 1, m2 = - 1, m3 = 0\<rparr>, - 0.22360679774997907),
      (\<lparr>j1 = 3, j2 = 3, j3 = 2, m1 = 1, m2 = 1, m3 = 2\<rparr>, - 0.63245553203367599),
      (\<lparr>j1 = 3, j2 = 3, j3 = 2, m1 = 3, m2 = - 3, m3 = 0\<rparr>, 0.67082039324993692),
      (\<lparr>j1 = 3, j2 = 3, j3 = 2, m1 = 3, m2 = - 1, m3 = 2\<rparr>, 0.54772255750516596),
      (\<lparr>j1 = 3, j2 = 3, j3 = 4, m1 = - 3, m2 = - 1, m3 = - 4\<rparr>, - 0.70710678118654746),
      (\<lparr>j1 = 3, j2 = 3, j3 = 4, m1 = - 3, m2 = 1, m3 = - 2\<rparr>, - 0.70710678118654746),
      (\<lparr>j1 = 3, j2 = 3, j3 = 4, m1 = - 3, m2 = 3, m3 = 0\<rparr>, - 0.49999999999999994),
      (\<lparr>j1 = 3, j2 = 3, j3 = 4, m1 = - 1, m2 = - 3, m3 = - 4\<rparr>, 0.70710678118654746),
      (\<lparr>j1 = 3, j2 = 3, j3 = 4, m1 = - 1, m2 = 1, m3 = 0\<rparr>, - 0.49999999999999994),
      (\<lparr>j1 = 3, j2 = 3, j3 = 4, m1 = - 1, m2 = 3, m3 = 2\<rparr>, - 0.70710678118654746),
      (\<lparr>j1 = 3, j2 = 3, j3 = 4, m1 = 1, m2 = - 3, m3 = - 2\<rparr>, 0.70710678118654746),
      (\<lparr>j1 = 3, j2 = 3, j3 = 4, m1 = 1, m2 = - 1, m3 = 0\<rparr>, 0.49999999999999994),
      (\<lparr>j1 = 3, j2 = 3, j3 = 4, m1 = 1, m2 = 3, m3 = 4\<rparr>, - 0.70710678118654746),
      (\<lparr>j1 = 3, j2 = 3, j3 = 4, m1 = 3, m2 = - 3, m3 = 0\<rparr>, 0.49999999999999994),
      (\<lparr>j1 = 3, j2 = 3, j3 = 4, m1 = 3, m2 = - 1, m3 = 2\<rparr>, 0.70710678118654746),
      (\<lparr>j1 = 3, j2 = 3, j3 = 4, m1 = 3, m2 = 1, m3 = 4\<rparr>, 0.70710678118654746),
      (\<lparr>j1 = 3, j2 = 3, j3 = 6, m1 = - 3, m2 = - 3, m3 = - 6\<rparr>, 1.00000000000000022),
      (\<lparr>j1 = 3, j2 = 3, j3 = 6, m1 = - 3, m2 = - 1, m3 = - 4\<rparr>, 0.70710678118654746),
      (\<lparr>j1 = 3, j2 = 3, j3 = 6, m1 = - 3, m2 = 1, m3 = - 2\<rparr>, 0.44721359549995793),
      (\<lparr>j1 = 3, j2 = 3, j3 = 6, m1 = - 3, m2 = 3, m3 = 0\<rparr>, 0.22360679774997894),
      (\<lparr>j1 = 3, j2 = 3, j3 = 6, m1 = - 1, m2 = - 3, m3 = - 4\<rparr>, 0.70710678118654746),
      (\<lparr>j1 = 3, j2 = 3, j3 = 6, m1 = - 1, m2 = - 1, m3 = - 2\<rparr>, 0.77459666924148352),
      (\<lparr>j1 = 3, j2 = 3, j3 = 6, m1 = - 1, m2 = 1, m3 = 0\<rparr>, 0.67082039324993670),
      (\<lparr>j1 = 3, j2 = 3, j3 = 6, m1 = - 1, m2 = 3, m3 = 2\<rparr>, 0.44721359549995793),
      (\<lparr>j1 = 3, j2 = 3, j3 = 6, m1 = 1, m2 = - 3, m3 = - 2\<rparr>, 0.44721359549995793),
      (\<lparr>j1 = 3, j2 = 3, j3 = 6, m1 = 1, m2 = - 1, m3 = 0\<rparr>, 0.67082039324993670),
      (\<lparr>j1 = 3, j2 = 3, j3 = 6, m1 = 1, m2 = 1, m3 = 2\<rparr>, 0.77459666924148352),
      (\<lparr>j1 = 3, j2 = 3, j3 = 6, m1 = 1, m2 = 3, m3 = 4\<rparr>, 0.70710678118654746),
      (\<lparr>j1 = 3, j2 = 3, j3 = 6, m1 = 3, m2 = - 3, m3 = 0\<rparr>, 0.22360679774997894),
      (\<lparr>j1 = 3, j2 = 3, j3 = 6, m1 = 3, m2 = - 1, m3 = 2\<rparr>, 0.44721359549995793),
      (\<lparr>j1 = 3, j2 = 3, j3 = 6, m1 = 3, m2 = 1, m3 = 4\<rparr>, 0.70710678118654746),
      (\<lparr>j1 = 3, j2 = 3, j3 = 6, m1 = 3, m2 = 3, m3 = 6\<rparr>, 1.00000000000000022)]"

text \<open>
  The \<open>std::unordered_map\<close> built from the initialiser list, as a finite map: a key is
  found by the equality of \<open>ThreeSpins\<close>, and the first entry of a key is the one kept.
\<close>

definition lookup_table :: "ThreeSpins \<rightharpoonup> real" where
  "lookup_table = map_of lookup_table_entries"

text \<open>
  Modelled from the spec: the body of \<open>ClebschGordan::coefficient\<close> (clebschgordan.cc is
  missing; the header declares it). It looks the six integers up in the table; a stored
  value is returned, otherwise the value is calculated, stored under the key and returned.
  The analytic \<open>calculate_coefficient\<close> is a parameter, and the table is passed and
  returned.
\<close>

definition coefficient ::
  "(int \<Rightarrow> int \<Rightarrow> int \<Rightarrow> int \<Rightarrow> int \<Rightarrow> int \<Rightarrow> real) \<Rightarrow>
     int \<Rightarrow> int \<Rightarrow> int \<Rightarrow> int \<Rightarrow> int \<Rightarrow> int \<Rightarrow> (ThreeSpins \<rightharpoonup> real)
     \<Rightarrow> real \<times> (ThreeSpins \<rightharpoonup> real)" where
  "coefficient calculate_coefficient j_a j_b j_c m_a m_b m_c table =
     (let spin_information = \<lparr>j1 = j_a, j2 = j_b, j3 = j_c, m1 = m_a, m2 = m_b, m3 = m_c\<rparr>
      in case table spin_information of
           Some stored \<Rightarrow> (stored, table)
         | None \<Rightarrow>
             let result = calculate_coefficient j_a j_b j_c m_a m_b m_c
             in (result, table(spin_information \<mapsto> result)))"

text \<open>A sequence of calls of \<open>coefficient\<close>, each on the table the previous one left.\<close>

definition coefficient_calls ::
  "(int \<Rightarrow> int \<Rightarrow> int \<Rightarrow> int \<Rightarrow> int \<Rightarrow> int \<Rightarrow> real) \<Rightarrow> ThreeSpins list
     \<Rightarrow> (ThreeSpins \<rightharpoonup> real) \<Rightarrow> (ThreeSpins \<rightharpoonup> real)" where
  "coefficient_calls calculate_coefficient keys table =
     fold (\<lambda>k t. snd (coefficient calculate_coefficient
                        (j1 k) (j2 k) (j3 k) (m1 k) (m2 k) (m3 k) t)) keys table"

section \<open>Auxiliary definitions\<close>

text \<open>The action that the per-step loop builds for an accepted particle.\<close>

definition decay_action_of :: "ParticleData \<Rightarrow> real \<Rightarrow> DecayAction" where
  "decay_action_of p t =
     add_decays (get_partial_widths_hadronic (ptype p) (effective_mass p)) (make_DecayAction p t)"

definition final_action_of :: "ParticleData \<Rightarrow> DecayAction" where
  "final_action_of p =
     add_decays (get_partial_widths (ptype p) (effective_mass p)) (make_DecayAction p 0)"

section \<open>Sample data\<close>

text \<open>
  Concrete collaborators on which the results below are evaluated: a value for \<open>hbarc\<close>,
  a sampler that replays a list of drawn variates (divided by the rate, never negative), a
  stable type, and a resonance whose channels open above the mass \<open>1\<close>.
\<close>

definition example_hbarc :: real where
  "example_hbarc = 0.197327053"

definition replay_exponential :: "real \<Rightarrow> real list \<Rightarrow> real \<times> real list" where
  "replay_exponential lambda rng =
     (case rng of [] \<Rightarrow> (0, []) | u # rest \<Rightarrow> (\<bar>u / lambda\<bar>, rest))"

definition stable_type :: ParticleType where
  "stable_type =
     \<lparr>is_stable = True, get_partial_widths_hadronic = (\<lambda>m. []), get_partial_widths = (\<lambda>m. [])\<rparr>"

definition resonance_type :: ParticleType where
  "resonance_type =
     \<lparr>is_stable = False,
      get_partial_widths_hadronic =
        (\<lambda>m. if 1 < m then [\<lparr>channel_id = 1, weight = 0.197327053\<rparr>] else []),
      get_partial_widths =
        (\<lambda>m. if 1 < m
             then [\<lparr>channel_id = 1, weight = 0.197327053\<rparr>, \<lparr>channel_id = 2, weight = 0.001\<rparr>]
             else [])\<rparr>"

definition example_particle :: "int \<Rightarrow> ParticleType \<Rightarrow> real \<Rightarrow> real \<Rightarrow> real \<Rightarrow> ParticleData" where
  "example_particle i ty t m tform =
     \<lparr>pid = i, ptype = ty, position = \<lparr>x0 = t, x1 = 0, x2 = 0, x3 = 0\<rparr>,
      effective_mass = m, formation_time = tform, inverse_gamma = 1\<rparr>"

text \<open>A stand-in for the analytic calculator, and two keys of the table.\<close>

definition example_calculate :: "int \<Rightarrow> int \<Rightarrow> int \<Rightarrow> int \<Rightarrow> int \<Rightarrow> int \<Rightarrow> real" where
  "example_calculate j_a j_b j_c m_a m_b m_c = 1 / 3"

definition other_calculate :: "int \<Rightarrow> int \<Rightarrow> int \<Rightarrow> int \<Rightarrow> int \<Rightarrow> int \<Rightarrow> real" where
  "other_calculate j_a j_b j_c m_a m_b m_c = 0"

definition key_0_1_1 :: ThreeSpins where
  "key_0_1_1 = \<lparr>j1 = 0, j2 = 1, j3 = 1, m1 = 0, m2 = - 1, m3 = - 1\<rparr>"

definition key_1_1_0 :: ThreeSpins where
  "key_1_1_0 = \<lparr>j1 = 1, j2 = 1, j3 = 0, m1 = - 1, m2 = 1, m3 = 0\<rparr>"

section \<open>Results about the finder\<close>

subsection \<open>The loops as list functions\<close>

lemma find_final_loop_acc:
  "find_final_loop ps acts = acts @ find_final_loop ps []"
proof (induction ps arbitrary: acts)
  case Nil
  show ?case by simp
next
  case (Cons p ps)
  show ?case
  proof (cases "is_stable (ptype p)")
    case True
    then show ?thesis using Cons.IH [of acts] by simp
  next
    case False
    then show ?thesis
      using Cons.IH [of "acts @ [final_action_of p]"] Cons.IH [of "[final_action_of p]"]
      by (simp add: final_action_of_def)
  qed
qed

lemma find_final_actions_Nil: "find_final_actions [] b = []"
  by (simp add: find_final_actions_def)

lemma find_final_actions_Cons:
  "find_final_actions (p # ps) b =
     (if is_stable (ptype p) then find_final_actions ps b
      else final_action_of p # find_final_actions ps b)"
  using find_final_loop_acc [of ps "[final_action_of p]"]
  by (simp add: find_final_actions_def final_action_of_def)

lemma find_final_actions_eq:
  "find_final_actions ps b = map final_action_of (filter (\<lambda>p. \<not> is_stable (ptype p)) ps)"
  by (induction ps) (simp_all add: find_final_actions_Nil find_final_actions_Cons)

lemma incoming_final_action_of: "incoming_particle (final_action_of p) = p"
  by (simp add: final_action_of_def add_decays_def make_DecayAction_def)

lemma incoming_decay_action_of: "incoming_particle (decay_action_of p t) = p"
  by (simp add: decay_action_of_def add_decays_def make_DecayAction_def)

lemma find_actions_loop_Cons:
  "find_actions_loop h e dt (p # ps) acts g =
     (if is_stable (ptype p) then find_actions_loop h e dt ps acts g
      else if \<not> 0 < total_weight (get_partial_widths_hadronic (ptype p) (effective_mass p))
      then find_actions_loop h e dt ps acts g
      else case e (1 / h * inverse_gamma p *
                   total_weight (get_partial_widths_hadronic (ptype p) (effective_mass p))) g of
        (t, g') \<Rightarrow>
          if t < dt \<and> formation_time p < x0 (position p) + t
          then find_actions_loop h e dt ps (acts @ [decay_action_of p t]) g'
          else find_actions_loop h e dt ps acts g')"
  by (auto simp add: Let_def decay_action_of_def split: prod.splits)

lemma find_actions_loop_acc:
  "find_actions_loop h e dt ps acts g =
     (acts @ fst (find_actions_loop h e dt ps [] g), snd (find_actions_loop h e dt ps [] g))"
proof (induction ps arbitrary: acts g)
  case Nil
  show ?case by simp
next
  case (Cons p ps)
  have IH: "find_actions_loop h e dt ps (as @ [a]) g' =
      (as @ fst (find_actions_loop h e dt ps [a] g'), snd (find_actions_loop h e dt ps [a] g'))"
    for as a g'
    using Cons.IH [of "as @ [a]" g'] Cons.IH [of "[a]" g'] by simp
  show ?case
    unfolding find_actions_loop_Cons [of h e dt p ps acts g]
      find_actions_loop_Cons [of h e dt p ps "[]" g]
    using Cons.IH [of acts] IH [of acts]
    by (auto split: prod.splits)
qed

lemma find_actions_in_cell_Nil: "find_actions_in_cell h e [] dt g = ([], g)"
  by (simp add: find_actions_in_cell_def)

lemma find_actions_in_cell_Cons:
  "find_actions_in_cell h e (p # ps) dt g =
     (if is_stable (ptype p) then find_actions_in_cell h e ps dt g
      else if \<not> 0 < total_weight (get_partial_widths_hadronic (ptype p) (effective_mass p))
      then find_actions_in_cell h e ps dt g
      else case e (1 / h * inverse_gamma p *
                   total_weight (get_partial_widths_hadronic (ptype p) (effective_mass p))) g of
        (t, g') \<Rightarrow>
          ((if t < dt \<and> formation_time p < x0 (position p) + t
            then [decay_action_of p t] else [])
             @ fst (find_actions_in_cell h e ps dt g'),
           snd (find_actions_in_cell h e ps dt g')))"
  unfolding find_actions_in_cell_def find_actions_loop_Cons [of h e dt p ps "[]" g]
  using find_actions_loop_acc [of h e dt ps "[decay_action_of p t]" for t]
  by (auto split: prod.splits)

lemma find_actions_in_cell_append:
  "find_actions_in_cell h e (xs @ ys) dt g =
     (fst (find_actions_in_cell h e xs dt g)
        @ fst (find_actions_in_cell h e ys dt (snd (find_actions_in_cell h e xs dt g))),
      snd (find_actions_in_cell h e ys dt (snd (find_actions_in_cell h e xs dt g))))"
proof (induction xs arbitrary: g)
  case Nil
  show ?case by (simp add: find_actions_in_cell_Nil)
next
  case (Cons p xs)
  show ?case
    unfolding append_Cons find_actions_in_cell_Cons
    by (simp add: Cons.IH split: prod.splits)
qed

lemma find_actions_in_cell_unstable:
  "a \<in> set (fst (find_actions_in_cell h e ps dt g)) \<Longrightarrow>
     \<not> is_stable (ptype (incoming_particle a))"
proof (induction ps arbitrary: g)
  case Nil
  then show ?case by (simp add: find_actions_in_cell_Nil)
next
  case (Cons p ps)
  from Cons.prems show ?case
    unfolding find_actions_in_cell_Cons
    using Cons.IH
    by (auto simp add: incoming_decay_action_of split: prod.splits if_splits)
qed

lemma find_actions_in_cell_subseq:
  "subseq (map incoming_particle (fst (find_actions_in_cell h e ps dt g))) ps"
proof (induction ps arbitrary: g)
  case Nil
  show ?case by (simp add: find_actions_in_cell_Nil)
next
  case (Cons p ps)
  show ?case
    unfolding find_actions_in_cell_Cons
    using Cons.IH
    by (auto simp add: incoming_decay_action_of split: prod.splits)
qed

lemma find_actions_in_cell_filter:
  "find_actions_in_cell h e (filter (\<lambda>p. \<not> is_stable (ptype p)) ps) dt g =
     find_actions_in_cell h e ps dt g"
proof (induction ps arbitrary: g)
  case Nil
  show ?case by simp
next
  case (Cons p ps)
  show ?case
    by (simp add: find_actions_in_cell_Cons Cons.IH split: prod.splits)
qed

lemmas example_defs = example_hbarc_def replay_exponential_def stable_type_def
  resonance_type_def example_particle_def total_weight_def add_decays_def make_DecayAction_def
  find_actions_in_cell_def find_final_actions_def Let_def

subsection \<open>The decision rule of per-step discovery\<close>

text \<open>
  C1. Let \<open>p\<close> be an unstable particle of the input list whose summed hadronic width at its
  effective mass is strictly positive, at any place of the list: \<open>before\<close> are the particles
  in front of it, \<open>after\<close> those behind it. Let \<open>decay_time\<close> be the time the sampler draws
  for \<open>p\<close>, a non-negative number as the sampler of an exponential law returns. Then the
  output is the actions of \<open>before\<close>, then one action for \<open>p\<close> exactly if
  \<open>0 \<le> decay_time < dt\<close> and \<open>formation_time < x0 + decay_time\<close>, then the actions of
  \<open>after\<close>. In particular \<open>p\<close> is rejected when its formation time equals the decay
  instant \<open>x0 + decay_time\<close>, and it decays when the formation time is strictly less and
  \<open>decay_time < dt\<close>.
\<close>

theorem decay_decision_rule:
  assumes unstable: "\<not> is_stable (ptype p)"
    and width: "0 < total_weight (get_partial_widths_hadronic (ptype p) (effective_mass p))"
    and before: "find_actions_in_cell hbarc exponential before dt rng = (acts1, rng1)"
    and draw: "exponential (1 / hbarc * inverse_gamma p *
                 total_weight (get_partial_widths_hadronic (ptype p) (effective_mass p))) rng1
               = (decay_time, rng2)"
    and nonneg: "0 \<le> decay_time"
    and after: "find_actions_in_cell hbarc exponential after dt rng2 = (acts2, rng3)"
  shows "find_actions_in_cell hbarc exponential (before @ p # after) dt rng =
           (acts1 @
            (if 0 \<le> decay_time \<and> decay_time < dt \<and>
                formation_time p < x0 (position p) + decay_time
             then [add_decays (get_partial_widths_hadronic (ptype p) (effective_mass p))
                     (make_DecayAction p decay_time)]
             else []) @ acts2, rng3)
    \<and> (formation_time p = x0 (position p) + decay_time \<longrightarrow>
         fst (find_actions_in_cell hbarc exponential (before @ p # after) dt rng)
           = acts1 @ acts2)
    \<and> (formation_time p < x0 (position p) + decay_time \<and> decay_time < dt \<longrightarrow>
         fst (find_actions_in_cell hbarc exponential (before @ p # after) dt rng)
           = acts1 @ [add_decays (get_partial_widths_hadronic (ptype p) (effective_mass p))
                        (make_DecayAction p decay_time)] @ acts2)"
proof -
  have "find_actions_in_cell hbarc exponential (p # after) dt rng1 =
          ((if decay_time < dt \<and> formation_time p < x0 (position p) + decay_time
            then [decay_action_of p decay_time] else []) @ acts2, rng3)"
    unfolding find_actions_in_cell_Cons using unstable width draw after by simp
  then have "find_actions_in_cell hbarc exponential (before @ p # after) dt rng =
           (acts1 @
            (if 0 \<le> decay_time \<and> decay_time < dt \<and>
                formation_time p < x0 (position p) + decay_time
             then [add_decays (get_partial_widths_hadronic (ptype p) (effective_mass p))
                     (make_DecayAction p decay_time)]
             else []) @ acts2, rng3)"
    unfolding find_actions_in_cell_append [of hbarc exponential before "p # after" dt rng]
    using before nonneg by (simp add: decay_action_of_def)
  then show ?thesis
    using nonneg by simp
qed

theorem decay_decision_rule_witness:
  "find_actions_in_cell example_hbarc replay_exponential
     [example_particle 1 resonance_type 10 (3/2) (21/2),
      example_particle 2 resonance_type 10 (3/2) (41/4),
      example_particle 3 stable_type 10 (3/2) 0] 1 [1/2, 1/2, 1/2]
   = ([add_decays [\<lparr>channel_id = 1, weight = 0.197327053\<rparr>]
         (make_DecayAction (example_particle 2 resonance_type 10 (3/2) (41/4)) (1/2))],
      [1/2])"
proof -
  let ?a = "example_particle 1 resonance_type 10 (3/2) (21/2)"
  let ?b = "example_particle 2 resonance_type 10 (3/2) (41/4)"
  let ?c = "example_particle 3 stable_type 10 (3/2) 0"
  have a1: "\<not> is_stable (ptype ?a)"
    by (simp add: example_defs)
  have a2: "0 < total_weight (get_partial_widths_hadronic (ptype ?a) (effective_mass ?a))"
    by (simp add: example_defs)
  have a3: "find_actions_in_cell example_hbarc replay_exponential [] 1 [1/2, 1/2, 1/2]
      = ([], [1/2, 1/2, 1/2])"
    by (simp add: example_defs)
  have a4: "replay_exponential (1 / example_hbarc * inverse_gamma ?a *
      total_weight (get_partial_widths_hadronic (ptype ?a) (effective_mass ?a))) [1/2, 1/2, 1/2]
      = (1/2, [1/2, 1/2])"
    by (simp add: example_defs)
  have b1: "\<not> is_stable (ptype ?b)"
    by (simp add: example_defs)
  have b2: "0 < total_weight (get_partial_widths_hadronic (ptype ?b) (effective_mass ?b))"
    by (simp add: example_defs)
  have b4: "replay_exponential (1 / example_hbarc * inverse_gamma ?b *
      total_weight (get_partial_widths_hadronic (ptype ?b) (effective_mass ?b))) [1/2, 1/2]
      = (1/2, [1/2])"
    by (simp add: example_defs)
  have nonneg: "(0::real) \<le> 1/2"
    by simp
  have b6: "find_actions_in_cell example_hbarc replay_exponential [?c] 1 [1/2] = ([], [1/2])"
    by (simp add: example_defs)
  have at_boundary: "formation_time ?a = x0 (position ?a) + 1/2"
    by (simp add: example_defs)
  have formed: "formation_time ?b < x0 (position ?b) + 1/2"
    by (simp add: example_defs)
  have a6: "find_actions_in_cell example_hbarc replay_exponential [] 1 [1/2, 1/2]
      = ([], [1/2, 1/2])"
    by (simp add: example_defs)
  have b3: "find_actions_in_cell example_hbarc replay_exponential [?a] 1 [1/2, 1/2, 1/2]
      = ([], [1/2, 1/2])"
    using decay_decision_rule [OF a1 a2 a3 a4 nonneg a6] at_boundary
    by simp
  show ?thesis
    using decay_decision_rule [OF b1 b2 b3 b4 nonneg b6] formed
    by (simp add: example_defs)
qed

subsection \<open>The forced final sweep\<close>

text \<open>
  C2, as the code has it. For a particle list that holds only unstable particles,
  \<open>find_final_actions\<close> returns exactly one action per particle, in the order of the list;
  each action carries its particle, the decay time \<open>0\<close> and the full channel list of
  \<open>get_partial_widths\<close> at the particle's effective mass, whatever that list holds. Nothing
  is sampled and no formation time is read.
\<close>

theorem forced_sweep_complete:
  assumes "\<forall>p \<in> set search_list. \<not> is_stable (ptype p)"
  shows "length (find_final_actions search_list only_res) = length search_list
    \<and> find_final_actions search_list only_res =
        map (\<lambda>p. \<lparr>incoming_particle = p, decay_time_of = 0,
                   decay_channels = get_partial_widths (ptype p) (effective_mass p),
                   total_width = total_weight (get_partial_widths (ptype p) (effective_mass p))\<rparr>)
          search_list"
proof -
  have "filter (\<lambda>p. \<not> is_stable (ptype p)) search_list = search_list"
    using assms by (simp add: filter_id_conv)
  then have "find_final_actions search_list only_res = map final_action_of search_list"
    by (simp add: find_final_actions_eq)
  then show ?thesis
    by (simp add: final_action_of_def add_decays_def make_DecayAction_def)
qed

theorem forced_sweep_complete_witness:
  "find_final_actions [example_particle 1 resonance_type 10 (3/2) 20,
                       example_particle 2 resonance_type 10 (1/2) 0] True =
     [\<lparr>incoming_particle = example_particle 1 resonance_type 10 (3/2) 20, decay_time_of = 0,
       decay_channels = [\<lparr>channel_id = 1, weight = 0.197327053\<rparr>,
                         \<lparr>channel_id = 2, weight = 0.001\<rparr>],
       total_width = 0.198327053\<rparr>,
      \<lparr>incoming_particle = example_particle 2 resonance_type 10 (1/2) 0, decay_time_of = 0,
       decay_channels = [], total_width = 0\<rparr>]"
proof -
  have h: "\<forall>p \<in> set [example_particle 1 resonance_type 10 (3/2) 20,
                       example_particle 2 resonance_type 10 (1/2) 0]. \<not> is_stable (ptype p)"
    by (simp add: example_defs)
  show ?thesis
    using forced_sweep_complete [OF h, of True]
    by (simp add: example_particle_def resonance_type_def total_weight_def)
qed

text \<open>
  The channel list of a forced action can be empty: an unstable particle below the
  threshold of all its channels has an empty full channel set, and the sweep still builds
  its action.
\<close>

theorem forced_sweep_empty_channels:
  "\<not> is_stable (ptype (example_particle 1 resonance_type 10 (1/2) 0))
   \<and> map decay_channels (find_final_actions [example_particle 1 resonance_type 10 (1/2) 0] False)
       = [[]]"
  by (simp add: example_defs)

subsection \<open>Stable particles\<close>

text \<open>
  C3. For every input list, every action of \<open>find_actions_in_cell\<close> and of
  \<open>find_final_actions\<close> belongs to a particle whose type is unstable; and removing the
  stable particles from the input changes neither output (nor the state of the random
  source): a stable particle contributes nothing.
\<close>

theorem stable_never_decays:
  "(\<forall>a \<in> set (fst (find_actions_in_cell hbarc exponential search_list dt rng)).
      \<not> is_stable (ptype (incoming_particle a)))
   \<and> (\<forall>a \<in> set (find_final_actions search_list only_res).
      \<not> is_stable (ptype (incoming_particle a)))
   \<and> find_actions_in_cell hbarc exponential
        (filter (\<lambda>p. \<not> is_stable (ptype p)) search_list) dt rng
      = find_actions_in_cell hbarc exponential search_list dt rng
   \<and> find_final_actions (filter (\<lambda>p. \<not> is_stable (ptype p)) search_list) only_res
      = find_final_actions search_list only_res"
proof -
  have a: "\<forall>a \<in> set (fst (find_actions_in_cell hbarc exponential search_list dt rng)).
      \<not> is_stable (ptype (incoming_particle a))"
    by (auto dest: find_actions_in_cell_unstable)
  have b: "\<forall>a \<in> set (find_final_actions search_list only_res).
      \<not> is_stable (ptype (incoming_particle a))"
    by (auto simp add: find_final_actions_eq incoming_final_action_of)
  show ?thesis
    using a b by (simp add: find_actions_in_cell_filter find_final_actions_eq)
qed

theorem stable_never_decays_witness:
  "fst (find_actions_in_cell example_hbarc replay_exponential
       [example_particle 1 stable_type 10 (3/2) 0,
        example_particle 2 resonance_type 10 (3/2) 0] 1 [1/2])
     = [decay_action_of (example_particle 2 resonance_type 10 (3/2) 0) (1/2)]
   \<and> \<not> is_stable (ptype (incoming_particle
         (decay_action_of (example_particle 2 resonance_type 10 (3/2) 0) (1/2))))
   \<and> find_final_actions
       [example_particle 1 stable_type 10 (3/2) 0,
        example_particle 2 resonance_type 10 (3/2) 0] True
     = [final_action_of (example_particle 2 resonance_type 10 (3/2) 0)]
   \<and> \<not> is_stable (ptype (incoming_particle
         (final_action_of (example_particle 2 resonance_type 10 (3/2) 0))))"
proof -
  have h1: "fst (find_actions_in_cell example_hbarc replay_exponential
       [example_particle 1 stable_type 10 (3/2) 0,
        example_particle 2 resonance_type 10 (3/2) 0] 1 [1/2])
     = [decay_action_of (example_particle 2 resonance_type 10 (3/2) 0) (1/2)]"
    by (simp add: example_defs decay_action_of_def)
  have h2: "find_final_actions
       [example_particle 1 stable_type 10 (3/2) 0,
        example_particle 2 resonance_type 10 (3/2) 0] True
     = [final_action_of (example_particle 2 resonance_type 10 (3/2) 0)]"
    by (simp add: example_defs final_action_of_def)
  show ?thesis
    using h1 h2 stable_never_decays [of example_hbarc replay_exponential
        "[example_particle 1 stable_type 10 (3/2) 0,
          example_particle 2 resonance_type 10 (3/2) 0]" 1 "[1/2]" True]
    by simp
qed

subsection \<open>Unstable particles without an open hadronic channel\<close>

text \<open>
  C6. In per-step discovery an unstable particle whose summed hadronic width at its
  effective mass is not strictly positive is skipped: the result for a list that holds it,
  at any place, is the result for the list without it. It produces no action, nothing is
  drawn for it, and the particles behind it are processed as if it were absent; the
  function has no failing path.
\<close>

theorem zero_width_skipped:
  assumes "\<not> is_stable (ptype p)"
    and "\<not> 0 < total_weight (get_partial_widths_hadronic (ptype p) (effective_mass p))"
  shows "find_actions_in_cell hbarc exponential (before @ p # after) dt rng =
           find_actions_in_cell hbarc exponential (before @ after) dt rng"
proof -
  have "find_actions_in_cell hbarc exponential (p # after) dt g =
          find_actions_in_cell hbarc exponential after dt g" for g
    unfolding find_actions_in_cell_Cons using assms by simp
  then show ?thesis
    by (simp add: find_actions_in_cell_append [of hbarc exponential before])
qed

theorem zero_width_skipped_witness:
  "find_actions_in_cell example_hbarc replay_exponential
     ([example_particle 1 resonance_type 10 (3/2) 0]
        @ example_particle 2 resonance_type 10 (1/2) 0
        # [example_particle 3 resonance_type 10 (3/2) 0]) 1 [1/4, 1/8]
   = find_actions_in_cell example_hbarc replay_exponential
     ([example_particle 1 resonance_type 10 (3/2) 0]
        @ [example_particle 3 resonance_type 10 (3/2) 0]) 1 [1/4, 1/8]
   \<and> length (fst (find_actions_in_cell example_hbarc replay_exponential
     ([example_particle 1 resonance_type 10 (3/2) 0]
        @ example_particle 2 resonance_type 10 (1/2) 0
        # [example_particle 3 resonance_type 10 (3/2) 0]) 1 [1/4, 1/8])) = 2"
proof -
  let ?p = "example_particle 2 resonance_type 10 (1/2) 0"
  have h1: "\<not> is_stable (ptype ?p)"
    by (simp add: example_defs)
  have h2: "\<not> 0 < total_weight (get_partial_widths_hadronic (ptype ?p) (effective_mass ?p))"
    by (simp add: example_defs)
  have h3: "length (fst (find_actions_in_cell example_hbarc replay_exponential
     ([example_particle 1 resonance_type 10 (3/2) 0]
        @ [example_particle 3 resonance_type 10 (3/2) 0]) 1 [1/4, 1/8])) = 2"
    by (simp add: example_defs)
  show ?thesis
    using zero_width_skipped [OF h1 h2, of example_hbarc replay_exponential
        "[example_particle 1 resonance_type 10 (3/2) 0]"
        "[example_particle 3 resonance_type 10 (3/2) 0]" 1 "[1/4, 1/8]"] h3
    by simp
qed

subsection \<open>Step sizes that are not positive\<close>

text \<open>
  C7, as the code has it. \<open>find_actions_in_cell\<close> does not test \<open>dt\<close>. Called with
  \<open>dt \<le> 0\<close> it runs as for any other step size; when the sampler returns only
  non-negative times, no decay time lies below \<open>dt\<close> and the returned list is empty.
\<close>

theorem nonpositive_dt_no_actions:
  assumes "dt \<le> 0"
    and "\<And>rate g. 0 \<le> fst (exponential rate g)"
  shows "fst (find_actions_in_cell hbarc exponential search_list dt rng) = []"
proof (induction search_list arbitrary: rng)
  case Nil
  show ?case by (simp add: find_actions_in_cell_Nil)
next
  case (Cons p ps)
  have "\<not> t < dt" if "exponential rate g = (t, g')" for rate g t g'
    using assms(1) assms(2) [of rate g] that by simp
  then show ?case
    unfolding find_actions_in_cell_Cons
    using Cons.IH by (auto split: prod.splits)
qed

theorem nonpositive_dt_no_actions_witness:
  "(0::real) \<le> 0 \<and> (\<forall>rate g. 0 \<le> fst (replay_exponential rate g))
   \<and> fst (find_actions_in_cell example_hbarc replay_exponential
       [example_particle 1 resonance_type 10 (3/2) 0,
        example_particle 2 resonance_type 10 (3/2) 0] 0 [1/2, 1/4]) = []"
proof -
  have h1: "(0::real) \<le> 0"
    by simp
  have h2: "0 \<le> fst (replay_exponential rate g)" for rate g
    by (simp add: replay_exponential_def split: list.splits)
  show ?thesis
    using h2 nonpositive_dt_no_actions [of 0 replay_exponential, OF h1 h2] by simp
qed

text \<open>
  With the step sizes \<open>0\<close> and \<open>- 1\<close> the call returns an ordinary result, the empty
  list, after drawing a decay time for the particle.
\<close>

theorem nonpositive_dt_returns:
  "find_actions_in_cell example_hbarc replay_exponential
     [example_particle 1 resonance_type 10 (3/2) 0] 0 [1/2, 1/4] = ([], [1/4])
   \<and> find_actions_in_cell example_hbarc replay_exponential
     [example_particle 1 resonance_type 10 (3/2) 0] (- 1) [1/2, 1/4] = ([], [1/4])"
  by (simp add: example_defs)

subsection \<open>The flag of the final sweep\<close>

text \<open>
  C9. For every particle list the output of \<open>find_final_actions\<close> is the same for both
  values of its second argument.
\<close>

theorem only_res_ignored:
  "find_final_actions search_list True = find_final_actions search_list False"
  by (simp add: find_final_actions_def)

subsection \<open>Order of the output\<close>

text \<open>
  C10. Both operations keep the order of the input: the particles of the actions of
  \<open>find_actions_in_cell\<close>, in output order, are a subsequence of the input list, and those
  of \<open>find_final_actions\<close> are the unstable particles of the input list in input order.
\<close>

theorem order_preserved:
  "subseq (map incoming_particle (fst (find_actions_in_cell hbarc exponential search_list dt rng)))
     search_list
   \<and> map incoming_particle (find_final_actions search_list only_res)
       = filter (\<lambda>p. \<not> is_stable (ptype p)) search_list"
  using find_actions_in_cell_subseq [of hbarc exponential search_list dt rng]
  by (simp add: find_final_actions_eq comp_def incoming_final_action_of)

section \<open>Results about the lookup\<close>

lemma coefficient_stored:
  "table \<lparr>j1 = a, j2 = b, j3 = c, m1 = d, m2 = e, m3 = f\<rparr> = Some v \<Longrightarrow>
     coefficient calc a b c d e f table = (v, table)"
  by (simp add: coefficient_def)

lemma coefficient_stores:
  "coefficient calc a b c d e f table = (v, table') \<Longrightarrow>
     table' \<lparr>j1 = a, j2 = b, j3 = c, m1 = d, m2 = e, m3 = f\<rparr> = Some v"
  by (auto simp add: coefficient_def Let_def split: option.splits)

lemma coefficient_keeps:
  "table k = Some w \<Longrightarrow> snd (coefficient calc a b c d e f table) k = Some w"
  by (auto simp add: coefficient_def Let_def split: option.splits)

lemma coefficient_calls_keeps:
  "table k = Some w \<Longrightarrow> coefficient_calls calc keys table k = Some w"
proof (induction keys arbitrary: table)
  case Nil
  then show ?case by (simp add: coefficient_calls_def)
next
  case (Cons key keys)
  have "snd (coefficient calc (j1 key) (j2 key) (j3 key) (m1 key) (m2 key) (m3 key) table) k
      = Some w"
    using Cons.prems by (rule coefficient_keeps)
  then show ?case
    using Cons.IH by (simp add: coefficient_calls_def)
qed

lemma lookup_table_0_0_0:
  "lookup_table \<lparr>j1 = 0, j2 = 0, j3 = 0, m1 = 0, m2 = 0, m3 = 0\<rparr> = Some 1"
  by (simp add: lookup_table_def lookup_table_entries_def)

lemma lookup_table_absent:
  "lookup_table \<lparr>j1 = 4, j2 = 4, j3 = 0, m1 = 0, m2 = 0, m3 = 0\<rparr> = None"
  by (simp add: lookup_table_def lookup_table_entries_def)

subsection \<open>The hash of the lookup table\<close>

text \<open>
  C4. The hash is not free of collisions on the valid coupling triples: the keys
  \<open>(0, 1, 1, 0, -1, -1)\<close> and \<open>(1, 1, 0, -1, 1, 0)\<close> are valid, distinct, both keys of
  the tabulated coefficients, and both hash to \<open>6\<close>.
\<close>

theorem ThreeSpinHash_collision:
  "valid_coupling key_0_1_1 \<and> valid_coupling key_1_1_0 \<and> key_0_1_1 \<noteq> key_1_1_0
   \<and> lookup_table key_0_1_1 = Some 1.00000000000000022
   \<and> lookup_table key_1_1_0 = Some (- 0.70710678118654757)
   \<and> ThreeSpinHash key_0_1_1 = 6 \<and> ThreeSpinHash key_1_1_0 = 6
   \<and> ThreeSpinHash key_0_1_1 = ThreeSpinHash key_1_1_0"
  by (simp add: valid_coupling_def key_0_1_1_def key_1_1_0_def ThreeSpinHash_def
      signed_divide_int_def lookup_table_def lookup_table_entries_def)

subsection \<open>Memoization\<close>

text \<open>
  C5. When a call of \<open>coefficient\<close> with six integers has returned \<open>v\<close>, a repeated call
  with the same integers returns the same \<open>v\<close> and leaves the table as it is, whatever
  the analytic calculator would compute (it is not consulted); every value that was in the
  table before the call is still there after it; and this stays so after any further
  sequence of calls.
\<close>

theorem coefficient_memoized:
  assumes "coefficient calc a b c d e f table = (v, table')"
  shows "coefficient calc' a b c d e f table' = (v, table')
    \<and> (\<forall>k w. table k = Some w \<longrightarrow> table' k = Some w)
    \<and> coefficient calc' a b c d e f (coefficient_calls calc'' keys table')
        = (v, coefficient_calls calc'' keys table')"
proof -
  let ?key = "\<lparr>j1 = a, j2 = b, j3 = c, m1 = d, m2 = e, m3 = f\<rparr>"
  have stored: "table' ?key = Some v"
    using assms by (rule coefficient_stores)
  have keeps: "\<forall>k w. table k = Some w \<longrightarrow> table' k = Some w"
    using coefficient_keeps [of table _ _ calc a b c d e f] assms by simp
  have later: "coefficient_calls calc'' keys table' ?key = Some v"
    using stored by (rule coefficient_calls_keeps)
  show ?thesis
    using stored keeps later by (simp add: coefficient_stored)
qed

theorem coefficient_memoized_witness:
  "coefficient example_calculate 4 4 0 0 0 0 lookup_table
     = (1 / 3, lookup_table(\<lparr>j1 = 4, j2 = 4, j3 = 0, m1 = 0, m2 = 0, m3 = 0\<rparr> \<mapsto> 1 / 3))
   \<and> coefficient other_calculate 4 4 0 0 0 0
        (lookup_table(\<lparr>j1 = 4, j2 = 4, j3 = 0, m1 = 0, m2 = 0, m3 = 0\<rparr> \<mapsto> 1 / 3))
     = (1 / 3, lookup_table(\<lparr>j1 = 4, j2 = 4, j3 = 0, m1 = 0, m2 = 0, m3 = 0\<rparr> \<mapsto> 1 / 3))
   \<and> lookup_table \<lparr>j1 = 0, j2 = 0, j3 = 0, m1 = 0, m2 = 0, m3 = 0\<rparr> = Some 1
   \<and> (lookup_table(\<lparr>j1 = 4, j2 = 4, j3 = 0, m1 = 0, m2 = 0, m3 = 0\<rparr> \<mapsto> 1 / 3))
        \<lparr>j1 = 0, j2 = 0, j3 = 0, m1 = 0, m2 = 0, m3 = 0\<rparr> = Some 1"
proof -
  have h: "coefficient example_calculate 4 4 0 0 0 0 lookup_table
     = (1 / 3, lookup_table(\<lparr>j1 = 4, j2 = 4, j3 = 0, m1 = 0, m2 = 0, m3 = 0\<rparr> \<mapsto> 1 / 3))"
    using lookup_table_absent by (simp add: coefficient_def example_calculate_def Let_def)
  show ?thesis
    using h lookup_table_0_0_0 coefficient_memoized [OF h, of other_calculate] by simp
qed

subsection \<open>Spot checks of the tabulated values\<close>

text \<open>
  C8. On the tabulated values \<open>coefficient(0,0,0,0,0,0)\<close> is \<open>1\<close>, and
  \<open>coefficient(1,1,0,-1,1,0)\<close> is the negation of \<open>coefficient(1,1,0,1,-1,0)\<close>, both
  within the tolerance \<open>1 / 10 ^ 12\<close> (they hold exactly); the calls leave the
  table unchanged and do not depend on the analytic calculator.
\<close>

theorem coefficient_spot_checks:
  "\<bar>fst (coefficient calc 0 0 0 0 0 0 lookup_table) - 1\<bar> \<le> 1 / 10 ^ 12
   \<and> \<bar>fst (coefficient calc 1 1 0 (- 1) 1 0 lookup_table)
       - (- fst (coefficient calc 1 1 0 1 (- 1) 0
                  (snd (coefficient calc 1 1 0 (- 1) 1 0 lookup_table))))\<bar> \<le> 1 / 10 ^ 12
   \<and> coefficient calc 0 0 0 0 0 0 lookup_table = (1, lookup_table)
   \<and> coefficient calc 1 1 0 (- 1) 1 0 lookup_table = (- 0.70710678118654757, lookup_table)
   \<and> coefficient calc 1 1 0 1 (- 1) 0 lookup_table = (0.70710678118654757, lookup_table)"
proof -
  have b: "lookup_table \<lparr>j1 = 1, j2 = 1, j3 = 0, m1 = - 1, m2 = 1, m3 = 0\<rparr>
      = Some (- 0.70710678118654757)"
    by (simp add: lookup_table_def lookup_table_entries_def)
  have c: "lookup_table \<lparr>j1 = 1, j2 = 1, j3 = 0, m1 = 1, m2 = - 1, m3 = 0\<rparr>
      = Some 0.70710678118654757"
    by (simp add: lookup_table_def lookup_table_entries_def)
  show ?thesis
    using lookup_table_0_0_0 b c by (simp add: coefficient_def)
qed

end
